theory Spec2Isabelle
  imports Complex_Main "HOL-Library.AList" "HOL-Library.Char_ord" "HOL-Library.List_Lexorder"
begin

section \<open>spPaint3d: the data classes of gui.py\<close>

text \<open>
  The development embeds the three data classes of \<^verbatim>\<open>scripts/sppaint3d/gui.py\<close>:
  \<^verbatim>\<open>sp3dObjectList\<close> (the source and target object lists), \<^verbatim>\<open>sp3dTransform\<close>
  (the random transform sampler) and \<^verbatim>\<open>sp3dToolOption\<close> (the persisted tool options).

  Conventions.
  \<^item> A Python \<^verbatim>\<open>dict\<close> is an association list in insertion order; storing to a new key
    appends, storing to an old key replaces in place (\<open>AList.update\<close>), \<^verbatim>\<open>del\<close> removes
    the key (\<open>AList.delete\<close>), lookup is \<open>map_of\<close>. The keys of a dict are distinct; where
    a statement depends on this it says so.
  \<^item> Python strings are \<open>string\<close>, ordered as Python orders them (character codes,
    lexicographically, a proper prefix first).
  \<^item> Python floats are read as real numbers: rounding error of the binary format is not
    part of the model.
  \<^item> Exceptions raised by Python itself are values of \<open>py_error\<close>.
  \<^item> The host application (\<^verbatim>\<open>maya.cmds\<close>) is a record of query functions, the \<open>scene\<close>;
    the pseudo-random generator (\<^verbatim>\<open>random\<close>) hands its draws in explicitly.
\<close>

datatype py_error = KeyError | IndexError | ZeroDivisionError | ValueError | TypeError

subsection \<open>The host scene\<close>

text \<open>
  What \<^verbatim>\<open>getDAGPath\<close> returns and an entry stores at position 0: \<^verbatim>\<open>None\<close>, the empty list
  (when the host answers a path query with one), or a path.
\<close>

datatype dagpath = NoPath | EmptyList | Path string

text \<open>
  \<open>listRelatives\<close> queries answer \<^verbatim>\<open>None\<close> or a list of names:
  \<open>childShapes n\<close> is \<^verbatim>\<open>cmds.listRelatives(n, children=True, shapes=True)\<close>,
  \<open>parents n\<close> is \<^verbatim>\<open>cmds.listRelatives(n, parent=True)\<close>,
  \<open>shapesFullPath n\<close> is \<^verbatim>\<open>cmds.listRelatives(n, fullPath=True, shapes=True)\<close> and
  \<open>shapesPath n\<close> is \<^verbatim>\<open>cmds.listRelatives(n, path=True, shapes=True)\<close>.
  \<open>objExists\<close> receives whatever an entry stores.
\<close>

record scene =
  objectType :: "string \<Rightarrow> string"
  nodeType :: "string \<Rightarrow> string"
  childShapes :: "string \<Rightarrow> string list option"
  parents :: "string \<Rightarrow> string list option"
  shapesFullPath :: "string \<Rightarrow> string list option"
  shapesPath :: "string \<Rightarrow> string list option"
  objExists :: "dagpath \<Rightarrow> bool"

text \<open>\<^verbatim>\<open>x or []\<close> for a list-or-None.\<close>

definition or_empty :: "string list option \<Rightarrow> string list" where
  "or_empty r = (case r of None \<Rightarrow> [] | Some xs \<Rightarrow> xs)"

definition getDAGPath :: "scene \<Rightarrow> string \<Rightarrow> bool \<Rightarrow> dagpath" where
  "getDAGPath sc node0 depth =
     (let nodetype0 = objectType sc node0;
          tempdag = or_empty (parents sc node0);
          (node, nodetype) =
             (if nodetype0 \<noteq> ''transform'' \<and> length tempdag = 1
              then (tempdag ! 0, objectType sc (tempdag ! 0))
              else (node0, nodetype0));
          dag =
             (if nodetype = ''transform'' \<and> length (or_empty (childShapes sc node)) = 1
              then (if depth then shapesFullPath sc node else shapesPath sc node)
              else None)
      in case dag of
           None \<Rightarrow> NoPath
         | Some [] \<Rightarrow> EmptyList
         | Some (p # ps) \<Rightarrow> Path p)"

subsection \<open>sp3derror\<close>

record sp3derror =
  error :: string
  ui :: string

text \<open>\<^verbatim>\<open>raiseError(self, newerror)\<close>: one argument besides \<^verbatim>\<open>self\<close>.\<close>

definition raiseError :: "sp3derror \<Rightarrow> string \<Rightarrow> sp3derror" where
  "raiseError h newerror = h\<lparr>error := newerror\<rparr>"

subsection \<open>sp3dObjectList\<close>

text \<open>An entry is the tuple \<^verbatim>\<open>(fullDAGPath, activation, proba, align)\<close>.\<close>

type_synonym entry = "dagpath \<times> bool \<times> real \<times> string"

record sp3dObjectList =
  obj :: "(string \<times> entry) list"
  i :: int
  auth :: "string list"
  errorHandle :: "sp3derror option"

definition authType :: "string \<Rightarrow> string list option" where
  "authType authorized =
     (if authorized = ''default'' then Some [''mesh'']
      else if authorized = ''source'' then Some [''mesh'', ''locator'']
      else if authorized = ''target'' then Some [''mesh'']
      else None)"

definition sp3dObjectList_init :: "string \<Rightarrow> sp3derror option \<Rightarrow> py_error + sp3dObjectList" where
  "sp3dObjectList_init authorized eh =
     (case authType authorized of
        None \<Rightarrow> Inl KeyError
      | Some a \<Rightarrow> Inr \<lparr>obj = [], i = 0, auth = a, errorHandle = eh\<rparr>)"

definition keys :: "sp3dObjectList \<Rightarrow> string list" where
  "keys r = map fst (obj r)"

definition alreadyExists :: "sp3dObjectList \<Rightarrow> string \<Rightarrow> bool" where
  "alreadyExists r k = (if k \<in> set (keys r) then True else False)"

text \<open>The loop of \<^verbatim>\<open>hasDuplicate\<close> over \<^verbatim>\<open>compareobjlist.obj.keys()\<close>.\<close>

fun hasDuplicate_loop :: "sp3dObjectList \<Rightarrow> string list \<Rightarrow> bool" where
  "hasDuplicate_loop self [] = False"
| "hasDuplicate_loop self (k # ks) =
     (if alreadyExists self k then True else hasDuplicate_loop self ks)"

definition hasDuplicate :: "sp3dObjectList \<Rightarrow> sp3dObjectList \<Rightarrow> bool" where
  "hasDuplicate self compareobjlist = hasDuplicate_loop self (keys compareobjlist)"

text \<open>
  The second component of the pair \<^verbatim>\<open>addObj\<close> returns: \<^verbatim>\<open>True\<close> or the reason of the
  rejection. The first component is the key, or \<^verbatim>\<open>None\<close>.
\<close>

datatype add_comment = PyTrue | Reason string

definition msg_exists :: string where
  "msg_exists = ''Object already exists in the list and can't be added again''"

definition msg_nochild :: string where
  "msg_nochild = ''Object doesn't seem to have any direct child of the proper type''"

definition msg_complex :: string where
  "msg_complex = ''Does not compute (hierarchy too complex or whatever)''"

definition msg_category :: string where
  "msg_category = ''Object doesn't fit any valid category to be added to the list''"

definition store_entry :: "scene \<Rightarrow> sp3dObjectList \<Rightarrow> string \<Rightarrow> bool \<Rightarrow> real \<Rightarrow> string \<Rightarrow> sp3dObjectList" where
  "store_entry sc self k activation proba align =
     self\<lparr>obj := AList.update k (getDAGPath sc k True, activation, proba, align) (obj self)\<rparr>"

definition addObj ::
  "scene \<Rightarrow> sp3dObjectList \<Rightarrow> string \<Rightarrow> dagpath \<Rightarrow> bool \<Rightarrow> real \<Rightarrow> string
     \<Rightarrow> (string option \<times> add_comment) \<times> sp3dObjectList" where
  "addObj sc self ob dagPath activation proba align =
     (if alreadyExists self ob then ((None, Reason msg_exists), self)
      else
        let objtype = objectType sc ob;
            objchild = childShapes sc ob
        in if objtype \<in> set (auth self)
           then ((Some ob, PyTrue), store_entry sc self ob activation proba align)
           else if objtype = ''transform''
           then (case objchild of
                   None \<Rightarrow> ((None, Reason msg_nochild), self)
                 | Some cs \<Rightarrow>
                     if length cs = 1 \<and> nodeType sc (cs ! 0) \<in> set (auth self)
                     then (let c = cs ! 0
                           in if alreadyExists self c then ((None, Reason msg_exists), self)
                              else ((Some c, PyTrue), store_entry sc self c activation proba align))
                     else ((None, Reason msg_complex), self))
           else ((None, Reason msg_category), self))"

definition delObj :: "sp3dObjectList \<Rightarrow> string \<Rightarrow> py_error + sp3dObjectList" where
  "delObj self k =
     (if k \<in> set (keys self) then Inr (self\<lparr>obj := AList.delete k (obj self)\<rparr>)
      else Inl KeyError)"

definition clrObj :: "sp3dObjectList \<Rightarrow> sp3dObjectList" where
  "clrObj self = self\<lparr>obj := [], i := 0\<rparr>"

text \<open>
  \<^verbatim>\<open>validateObjects\<close>. The loop runs over the keys in dict order. Its result carries,
  besides the answer, the references handed to \<^verbatim>\<open>cmds.objExists\<close>, in order, so that
  which entries were examined is visible. With an error handle set, the first iteration
  calls \<^verbatim>\<open>raiseError\<close> with two arguments, which Python refuses with a \<^verbatim>\<open>TypeError\<close>.
\<close>

fun validate_loop :: "scene \<Rightarrow> sp3dObjectList \<Rightarrow> string list \<Rightarrow> py_error + (bool \<times> dagpath list)" where
  "validate_loop sc self [] = Inr (True, [])"
| "validate_loop sc self (k # ks) =
     (case map_of (obj self) k of
        None \<Rightarrow> Inl KeyError
      | Some data \<Rightarrow>
          (case errorHandle self of
             Some h \<Rightarrow> Inl TypeError
           | None \<Rightarrow>
               if \<not> objExists sc (fst data) then Inr (False, [fst data])
               else (case validate_loop sc self ks of
                       Inl e \<Rightarrow> Inl e
                     | Inr (b, probed) \<Rightarrow> Inr (b, fst data # probed))))"

definition validateObjects ::
  "scene \<Rightarrow> sp3dObjectList \<Rightarrow> py_error + (bool \<times> dagpath list \<times> sp3derror option)" where
  "validateObjects sc self =
     (if length (keys self) = 0 then Inr (False, [], errorHandle self)
      else case validate_loop sc self (keys self) of
             Inl e \<Rightarrow> Inl e
           | Inr (b, probed) \<Rightarrow>
               if b then Inr (True, probed,
                              map_option (\<lambda>h. raiseError h ''INFO: Everything checks out'')
                                (errorHandle self))
               else Inr (False, probed, errorHandle self))"

text \<open>Python list indexing: a negative index counts from the end.\<close>

definition py_index :: "'a list \<Rightarrow> int \<Rightarrow> py_error + 'a" where
  "py_index xs n =
     (let len = int (length xs); j = (if n < 0 then len + n else n)
      in if 0 \<le> j \<and> j < len then Inr (xs ! nat j) else Inl IndexError)"

text \<open>
  \<^verbatim>\<open>getRandom\<close>. The argument \<open>r\<close> is the integer that \<^verbatim>\<open>rand.randint(0, len(dkeys) - 1)\<close>
  draws; on an empty dict the range is empty and \<^verbatim>\<open>randint\<close> raises \<^verbatim>\<open>ValueError\<close>.
\<close>

definition getRandom :: "sp3dObjectList \<Rightarrow> bool \<Rightarrow> int \<Rightarrow> py_error + dagpath" where
  "getRandom self weighted r =
     (let dkeys = keys self
      in if int (length dkeys) - 1 < 0 then Inl ValueError
         else case py_index dkeys r of
                Inl e \<Rightarrow> Inl e
              | Inr k \<Rightarrow> (case map_of (obj self) k of
                            None \<Rightarrow> Inl KeyError
                          | Some dag \<Rightarrow> Inr (fst dag)))"

definition getNext :: "sp3dObjectList \<Rightarrow> py_error + (dagpath \<times> sp3dObjectList)" where
  "getNext self =
     (let dkeys = sort (keys self)
      in if length dkeys = 0 then Inl ZeroDivisionError
         else case py_index dkeys (i self mod int (length dkeys)) of
                Inl e \<Rightarrow> Inl e
              | Inr k \<Rightarrow> (case map_of (obj self) k of
                            None \<Rightarrow> Inl KeyError
                          | Some dag \<Rightarrow> Inr (fst dag, self\<lparr>i := i self + 1\<rparr>)))"

text \<open>\<open>n\<close> consecutive calls of \<^verbatim>\<open>getNext\<close>, collecting what they return.\<close>

fun getNext_n :: "nat \<Rightarrow> sp3dObjectList \<Rightarrow> py_error + (dagpath list \<times> sp3dObjectList)" where
  "getNext_n 0 self = Inr ([], self)"
| "getNext_n (Suc n) self =
     (case getNext self of
        Inl e \<Rightarrow> Inl e
      | Inr (d, self') \<Rightarrow>
          (case getNext_n n self' of
             Inl e \<Rightarrow> Inl e
           | Inr (ds, self'') \<Rightarrow> Inr (d # ds, self'')))"

subsection \<open>sp3dTransform\<close>

text \<open>
  \<^verbatim>\<open>round(x, ndigits)\<close> on a float: to the nearest multiple of \<open>10\<^sup>-\<^sup>n\<close>, a tie to the even
  one.
\<close>

definition round_half_even :: "real \<Rightarrow> int" where
  "round_half_even y =
     (let f = \<lfloor>y\<rfloor>; d = y - of_int f
      in if d < 1 / 2 then f else if 1 / 2 < d then f + 1 else if even f then f else f + 1)"

definition py_round :: "real \<Rightarrow> nat \<Rightarrow> real" where
  "py_round x ndigits = of_int (round_half_even (x * 10 ^ ndigits)) / 10 ^ ndigits"

text \<open>
  The generator: \<open>draws g n\<close> is the \<open>n\<close>-th value \<^verbatim>\<open>random()\<close> produces, \<open>pos g\<close> the number
  of values consumed. \<^verbatim>\<open>uniform(a, b)\<close> is \<^verbatim>\<open>a + (b - a) * random()\<close>.
\<close>

record rand_state =
  draws :: "nat \<Rightarrow> real"
  pos :: nat

definition random :: "rand_state \<Rightarrow> real \<times> rand_state" where
  "random g = (draws g (pos g), g\<lparr>pos := pos g + 1\<rparr>)"

definition uniform :: "real \<Rightarrow> real \<Rightarrow> rand_state \<Rightarrow> real \<times> rand_state" where
  "uniform a b g = (let (u, g') = random g in (a + (b - a) * u, g'))"

type_synonym range = "real \<times> real"

record sp3dTransform =
  rotate :: "range \<times> range \<times> range"
  scale :: "range \<times> range \<times> range"
  uJitter :: range
  vJitter :: range

definition sp3dTransform_init :: sp3dTransform where
  "sp3dTransform_init =
     \<lparr>rotate = ((0, 0), (0, 0), (0, 0)), scale = ((1, 1), (1, 1), (1, 1)),
      uJitter = (0, 0), vJitter = (0, 0)\<rparr>"

definition getRandomScale ::
  "sp3dTransform \<Rightarrow> bool \<Rightarrow> rand_state \<Rightarrow> (real \<times> real \<times> real) \<times> rand_state" where
  "getRandomScale self uni g =
     (let (x, y, z) = scale self
      in if uni
         then (let (v, g1) = uniform (fst x) (snd x) g;
                   randxyz = py_round v 3
               in ((randxyz, randxyz, randxyz), g1))
         else (let (vx, g1) = uniform (fst x) (snd x) g;
                   (vy, g2) = uniform (fst y) (snd y) g1;
                   (vz, g3) = uniform (fst z) (snd z) g2
               in ((py_round vx 3, py_round vy 3, py_round vz 3), g3)))"

subsection \<open>sp3dToolOption\<close>

text \<open>
  The values of the option attributes are Python numbers: \<^verbatim>\<open>bool\<close>, \<^verbatim>\<open>int\<close> or \<^verbatim>\<open>float\<close>.
  The host's option store keeps an integer (flag \<^verbatim>\<open>iv\<close>) or a float (flag \<^verbatim>\<open>fv\<close>)
  under a name.
\<close>

datatype pynum = PyBool bool | PyInt int | PyFloat real

datatype optvalue = IntVar int | FloatVar real

type_synonym optionVars = "string \<rightharpoonup> optvalue"

text \<open>\<^verbatim>\<open>int(v)\<close> truncates towards zero; \<^verbatim>\<open>float(v)\<close>.\<close>

fun py_int :: "pynum \<Rightarrow> int" where
  "py_int (PyBool b) = (if b then 1 else 0)"
| "py_int (PyInt n) = n"
| "py_int (PyFloat x) = (if 0 \<le> x then \<lfloor>x\<rfloor> else \<lceil>x\<rceil>)"

fun py_float :: "pynum \<Rightarrow> real" where
  "py_float (PyBool b) = (if b then 1 else 0)"
| "py_float (PyInt n) = of_int n"
| "py_float (PyFloat x) = x"

text \<open>The number a stored value stands for, its truth value, and \<^verbatim>\<open>round(v, 2)\<close> of it.\<close>

fun opt_num :: "optvalue \<Rightarrow> real" where
  "opt_num (IntVar n) = of_int n"
| "opt_num (FloatVar x) = x"

fun opt_bool :: "optvalue \<Rightarrow> bool" where
  "opt_bool (IntVar n) = (n \<noteq> 0)"
| "opt_bool (FloatVar x) = (x \<noteq> 0)"

fun opt_round2 :: "optvalue \<Rightarrow> pynum" where
  "opt_round2 (IntVar n) = PyInt n"
| "opt_round2 (FloatVar x) = PyFloat (py_round x 2)"

text \<open>
  The host command \<^verbatim>\<open>cmds.optionVar\<close>: \<^verbatim>\<open>exists=name\<close>, \<^verbatim>\<open>q=name\<close> (the host answers
  \<^verbatim>\<open>0\<close> for a name it does not hold), \<^verbatim>\<open>iv=(name, value)\<close> and \<^verbatim>\<open>fv=(name, value)\<close>.
\<close>

definition optionVar_exists :: "optionVars \<Rightarrow> string \<Rightarrow> bool" where
  "optionVar_exists st name = (st name \<noteq> None)"

definition optionVar_q :: "optionVars \<Rightarrow> string \<Rightarrow> optvalue" where
  "optionVar_q st name = (case st name of None \<Rightarrow> IntVar 0 | Some v \<Rightarrow> v)"

definition optionVar_iv :: "optionVars \<Rightarrow> string \<Rightarrow> pynum \<Rightarrow> optionVars" where
  "optionVar_iv st name v = st(name \<mapsto> IntVar (py_int v))"

definition optionVar_fv :: "optionVars \<Rightarrow> string \<Rightarrow> pynum \<Rightarrow> optionVars" where
  "optionVar_fv st name v = st(name \<mapsto> FloatVar (py_float v))"

definition spPaint3dVersion :: real where
  "spPaint3dVersion = 2022"

text \<open>
  The table \<^verbatim>\<open>sp3dOptionVars\<close>, a row \<^verbatim>\<open>name: (type, default, attribute)\<close> per option, in
  the order of the dict literal. The methods loop over its keys and look each row up;
  the keys of the literal are distinct, so the loops below run over the rows.
\<close>

type_synonym optrow = "string \<times> string \<times> pynum \<times> string"

definition sp3dOptionVars :: "optrow list" where
  "sp3dOptionVars =
     [(''sp3dTransformRotate'', ''iv'', PyInt 1, ''transformRotate''),
      (''sp3dTransformScale'', ''iv'', PyInt 1, ''transformScale''),
      (''sp3dTransformScaleUniform'', ''iv'', PyInt 1, ''transformScaleUniform''),
      (''sp3dInstance'', ''iv'', PyInt 0, ''instance''),
      (''sp3dRandom'', ''iv'', PyInt 1, ''random''),
      (''sp3dAlign'', ''iv'', PyInt 1, ''align''),
      (''sp3dPaintFlux'', ''iv'', PyInt 1, ''paintFlux''),
      (''sp3dRampFX'', ''fv'', PyInt 0, ''rampFX''),
      (''sp3dRealTimeRampFX'', ''iv'', PyInt 0, ''realTimeRampFX''),
      (''sp3dPaintTimer'', ''fv'', PyFloat (5 / 100), ''paintTimer''),
      (''sp3dPaintDistance'', ''fv'', PyInt 10, ''paintDistance''),
      (''sp3dPaintOffset'', ''fv'', PyInt 0, ''upOffset''),
      (''sp3dPlaceRotate'', ''fv'', PyInt 45, ''placeRotate''),
      (''sp3dContinuousTransform'', ''iv'', PyInt 0, ''continuousTransform''),
      (''sp3dJitter'', ''iv'', PyInt 0, ''jitter''),
      (''sp3dPreserveInConn'', ''iv'', PyInt 0, ''preserveConn''),
      (''sp3dSmoothNormal'', ''iv'', PyInt 1, ''smoothNormal''),
      (''sp3dSetupHierarchy'', ''iv'', PyInt 0, ''hierarchy''),
      (''sp3dGroup'', ''fv'', PyInt 0, ''group''),
      (''sp3dVersion'', ''fv'', PyFloat spPaint3dVersion, ''version'')]"

text \<open>
  The object: its option attributes (the part of \<^verbatim>\<open>__dict__\<close> that holds numbers) and
  \<^verbatim>\<open>groupID\<close> (\<^verbatim>\<open>None\<close> or the name of the output group).
\<close>

record sp3dToolOption =
  vars :: "string \<rightharpoonup> pynum"
  groupID :: "string option"

fun checkVars_loop :: "optionVars \<Rightarrow> optrow list \<Rightarrow> bool" where
  "checkVars_loop st [] = True"
| "checkVars_loop st ((name, type, val, varname) # rows) =
     (if \<not> optionVar_exists st name then False
      else if name = ''sp3dVersion'' \<and> opt_num (optionVar_q st name) \<noteq> py_float val then False
      else checkVars_loop st rows)"

definition checkVars :: "optionVars \<Rightarrow> bool" where
  "checkVars st = checkVars_loop st sp3dOptionVars"

fun loadVars_loop :: "optionVars \<Rightarrow> optrow list \<Rightarrow> (string \<rightharpoonup> pynum) \<Rightarrow> (string \<rightharpoonup> pynum)" where
  "loadVars_loop st [] d = d"
| "loadVars_loop st ((name, type, val, varname) # rows) d =
     loadVars_loop st rows
       (if type = ''iv'' then d(varname \<mapsto> PyBool (opt_bool (optionVar_q st name)))
        else if type = ''fv'' then d(varname \<mapsto> opt_round2 (optionVar_q st name))
        else d)"

definition loadVars :: "optionVars \<Rightarrow> sp3dToolOption \<Rightarrow> sp3dToolOption" where
  "loadVars st self = self\<lparr>vars := loadVars_loop st sp3dOptionVars (vars self)\<rparr>"

fun resetVars_loop :: "optrow list \<Rightarrow> optionVars \<Rightarrow> optionVars" where
  "resetVars_loop [] st = st"
| "resetVars_loop ((name, type, val, varname) # rows) st =
     resetVars_loop rows
       (if type = ''iv'' then optionVar_iv st name val
        else if type = ''fv'' then optionVar_fv st name val
        else st)"

definition resetVars :: "sp3dToolOption \<Rightarrow> optionVars \<Rightarrow> sp3dToolOption \<times> optionVars" where
  "resetVars self st =
     (let st' = resetVars_loop sp3dOptionVars st in (loadVars st' self, st'))"

text \<open>\<^verbatim>\<open>self.__dict__[varname]\<close> raises \<^verbatim>\<open>KeyError\<close> for an attribute the object lacks.\<close>

fun commitVars_loop :: "(string \<rightharpoonup> pynum) \<Rightarrow> optrow list \<Rightarrow> optionVars \<Rightarrow> py_error + optionVars" where
  "commitVars_loop d [] st = Inr st"
| "commitVars_loop d ((name, type, val, varname) # rows) st =
     (if type = ''iv'' then
        (case d varname of
           None \<Rightarrow> Inl KeyError
         | Some v \<Rightarrow> commitVars_loop d rows (optionVar_iv st name (PyInt (py_int v))))
      else if type = ''fv'' then
        (case d varname of
           None \<Rightarrow> Inl KeyError
         | Some v \<Rightarrow> commitVars_loop d rows (optionVar_fv st name v))
      else commitVars_loop d rows st)"

definition commitVars :: "sp3dToolOption \<Rightarrow> optionVars \<Rightarrow> py_error + optionVars" where
  "commitVars self st = commitVars_loop (vars self) sp3dOptionVars st"

text \<open>The attributes \<^verbatim>\<open>__init__\<close> assigns before it looks at the store.\<close>

definition init_attributes :: sp3dToolOption where
  "init_attributes =
     \<lparr>vars = map_of
     [(''transformRotate'', PyBool True),
      (''transformScale'', PyBool True),
      (''transformScaleUniform'', PyBool True),
      (''instance'', PyBool False),
      (''random'', PyBool True),
      (''align'', PyBool True),
      (''paintFlux'', PyBool True),
      (''jitter'', PyBool False),
      (''rampFX'', PyInt 0),
      (''realTimeRampFX'', PyBool False),
      (''paintTimer'', PyFloat (5 / 100)),
      (''paintDistance'', PyInt 10),
      (''placeRotate'', PyInt 45),
      (''continuousTransform'', PyBool False),
      (''upOffset'', PyInt 0),
      (''preserveConn'', PyBool False),
      (''smoothNormal'', PyBool False),
      (''hierarchy'', PyBool False),
      (''group'', PyInt 0),
      (''version'', PyFloat spPaint3dVersion)],
      groupID = None\<rparr>"

text \<open>
  \<^verbatim>\<open>__init__\<close>: load when the store checks out, otherwise (after the alert dialog and the
  removal of the window preferences, which touch neither the object nor the store) write
  the attributes as they are.
\<close>

definition sp3dToolOption_init :: "optionVars \<Rightarrow> py_error + (sp3dToolOption \<times> optionVars)" where
  "sp3dToolOption_init st =
     (let self = init_attributes
      in if checkVars st then Inr (loadVars st self, st)
         else case commitVars self st of
                Inl e \<Rightarrow> Inl e
              | Inr st' \<Rightarrow> Inr (self, st'))"

text \<open>The composition the round trip is about: \<^verbatim>\<open>commitVars()\<close>, then \<^verbatim>\<open>loadVars()\<close>.\<close>

definition commit_load :: "sp3dToolOption \<Rightarrow> optionVars \<Rightarrow> py_error + (sp3dToolOption \<times> optionVars)" where
  "commit_load self st =
     (case commitVars self st of
        Inl e \<Rightarrow> Inl e
      | Inr st' \<Rightarrow> Inr (loadVars st' self, st'))"

subsection \<open>A small scene and some lists, for concrete runs\<close>

text \<open>
  The transform \<open>pCube1\<close> carries one mesh; \<open>twin\<close> carries two meshes; \<open>grp\<close> carries a
  mesh and a curve. Only the path of the cube's mesh is live.
\<close>

definition example_types :: "string \<Rightarrow> string" where
  "example_types n =
     (if n = ''pCube1'' \<or> n = ''twin'' \<or> n = ''grp'' then ''transform''
      else if n = ''curveShape1'' then ''nurbsCurve''
      else ''mesh'')"

definition example_children :: "string \<Rightarrow> string list option" where
  "example_children n =
     (if n = ''pCube1'' then Some [''pCubeShape1'']
      else if n = ''twin'' then Some [''twinShape1'', ''twinShape2'']
      else if n = ''grp'' then Some [''grpShape'', ''curveShape1'']
      else None)"

definition example_parents :: "string \<Rightarrow> string list option" where
  "example_parents n = (if n = ''pCubeShape1'' then Some [''pCube1''] else None)"

definition example_paths :: "string \<Rightarrow> string list option" where
  "example_paths n = (if n = ''pCube1'' then Some [''|pCube1|pCubeShape1''] else None)"

definition example_live :: "dagpath \<Rightarrow> bool" where
  "example_live d = (d = Path ''|pCube1|pCubeShape1'')"

definition example_scene :: scene where
  "example_scene =
     \<lparr>objectType = example_types, nodeType = example_types, childShapes = example_children,
      parents = example_parents, shapesFullPath = example_paths, shapesPath = example_paths,
      objExists = example_live\<rparr>"

definition example_target :: sp3dObjectList where
  "example_target = \<lparr>obj = [], i = 0, auth = [''mesh''], errorHandle = None\<rparr>"

definition example_target_cube :: sp3dObjectList where
  "example_target_cube =
     \<lparr>obj = [(''pCubeShape1'', (Path ''|pCube1|pCubeShape1'', True, 1 / 2, ''Up''))],
      i = 0, auth = [''mesh''], errorHandle = None\<rparr>"

text \<open>A list whose key \<open>twin\<close> was added before the scene was edited.\<close>

definition example_target_stale :: sp3dObjectList where
  "example_target_stale =
     \<lparr>obj = [(''twin'', (NoPath, True, 1 / 2, ''Up''))],
      i = 0, auth = [''mesh''], errorHandle = None\<rparr>"

text \<open>
  Source lists: two entries with the weights \<open>0.1\<close> and \<open>0.9\<close>; the same with the first
  entry switched off; three entries added in an order that is not the order of their keys,
  the middle one switched off.
\<close>

definition example_weighted :: sp3dObjectList where
  "example_weighted =
     \<lparr>obj = [(''rockShape'', (Path ''|rock|rockShape'', True, 1 / 10, ''Up'')),
             (''treeShape'', (Path ''|tree|treeShape'', True, 9 / 10, ''Up''))],
      i = 0, auth = [''mesh'', ''locator''], errorHandle = None\<rparr>"

definition example_disabled :: sp3dObjectList where
  "example_disabled =
     \<lparr>obj = [(''rockShape'', (Path ''|rock|rockShape'', False, 1 / 10, ''Up'')),
             (''treeShape'', (Path ''|tree|treeShape'', True, 9 / 10, ''Up''))],
      i = 0, auth = [''mesh'', ''locator''], errorHandle = None\<rparr>"

definition example_source :: sp3dObjectList where
  "example_source =
     \<lparr>obj = [(''treeShape'', (Path ''|tree|treeShape'', True, 1 / 2, ''Up'')),
             (''bushShape'', (Path ''|bush|bushShape'', False, 1 / 2, ''Up'')),
             (''rockShape'', (Path ''|rock|rockShape'', True, 1 / 2, ''Up''))],
      i = 0, auth = [''mesh'', ''locator''], errorHandle = None\<rparr>"

text \<open>
  A target list whose second reference is no longer live in \<open>example_scene\<close>, and the
  same list with an error handle.
\<close>

definition example_deleted :: sp3dObjectList where
  "example_deleted =
     \<lparr>obj = [(''pCubeShape1'', (Path ''|pCube1|pCubeShape1'', True, 1 / 2, ''Up'')),
             (''goneShape'', (Path ''|gone|goneShape'', True, 1 / 2, ''Up'')),
             (''lateShape'', (Path ''|late|lateShape'', True, 1 / 2, ''Up''))],
      i = 0, auth = [''mesh''], errorHandle = None\<rparr>"

definition example_handled :: sp3dObjectList where
  "example_handled = example_deleted\<lparr>errorHandle := Some \<lparr>error = ''ready'', ui = ''field''\<rparr>\<rparr>"

text \<open>The list of the live cube, with an error handle.\<close>

definition example_cube_handled :: sp3dObjectList where
  "example_cube_handled =
     example_target_cube\<lparr>errorHandle := Some \<lparr>error = ''ready'', ui = ''field''\<rparr>\<rparr>"

text \<open>
  Option stores and objects: the store \<^verbatim>\<open>resetVars\<close> writes into an empty one; that store
  with the version of an older release; an object whose \<open>align\<close> holds the integer \<open>5\<close> and
  whose \<open>paintTimer\<close> has more than two decimals.
\<close>

definition default_store :: optionVars where
  "default_store = resetVars_loop sp3dOptionVars Map.empty"

definition stale_store :: optionVars where
  "stale_store = default_store(''sp3dVersion'' \<mapsto> FloatVar 2021)"

definition example_options :: sp3dToolOption where
  "example_options =
     init_attributes\<lparr>vars := (vars init_attributes)
        (''paintTimer'' \<mapsto> PyFloat (1234 / 100000), ''align'' \<mapsto> PyInt 5)\<rparr>"

text \<open>A generator that always draws \<open>0.5\<close>, and a transform with three different scale ranges.\<close>

definition example_rand :: rand_state where
  "example_rand = \<lparr>draws = (\<lambda>n. 1 / 2), pos = 0\<rparr>"

definition example_transform :: sp3dTransform where
  "example_transform = sp3dTransform_init\<lparr>scale := ((1, 2), (1, 3), (1, 4))\<rparr>"

section \<open>Properties of sp3dObjectList\<close>

lemma hasDuplicate_loop_iff: "hasDuplicate_loop self ks \<longleftrightarrow> (\<exists>k \<in> set ks. k \<in> set (keys self))"
  by (induction ks) (auto simp: alreadyExists_def)

text \<open>
  C7. \<^verbatim>\<open>hasDuplicate\<close> is symmetric in its two lists, and it answers \<^verbatim>\<open>True\<close> exactly when
  the two lists have a key in common.
\<close>

theorem hasDuplicate_symmetric:
  "hasDuplicate A B = hasDuplicate B A \<and>
   (hasDuplicate A B \<longleftrightarrow> set (keys A) \<inter> set (keys B) \<noteq> {})"
  unfolding hasDuplicate_def hasDuplicate_loop_iff by blast

lemma alreadyExists_iff: "alreadyExists self k \<longleftrightarrow> k \<in> set (keys self)"
  by (simp add: alreadyExists_def)

lemma update_new: "k \<notin> fst ` set al \<Longrightarrow> AList.update k v al = al @ [(k, v)]"
  by (induction al) auto

lemma delete_appended: "k \<notin> fst ` set al \<Longrightarrow> AList.delete k (al @ [(k, v)]) = al"
  by (induction al) (auto simp: AList.delete_eq)

lemma store_entry_new:
  "\<not> alreadyExists self k \<Longrightarrow>
   store_entry sc self k activation proba align =
     self\<lparr>obj := obj self @ [(k, (getDAGPath sc k True, activation, proba, align))]\<rparr>"
  by (simp add: store_entry_def alreadyExists_iff keys_def update_new)

lemma delObj_store_entry:
  "\<not> alreadyExists self k \<Longrightarrow> delObj (store_entry sc self k activation proba align) k = Inr self"
  by (simp add: store_entry_new) (simp add: delObj_def keys_def alreadyExists_iff delete_appended)

lemma i_store_entry: "i (store_entry sc self k activation proba align) = i self"
  by (simp add: store_entry_def)

lemmas example_defs =
  example_scene_def example_types_def example_children_def example_parents_def
  example_paths_def example_live_def example_target_def example_target_cube_def
  example_target_stale_def

lemma getDAGPath_cube: "getDAGPath example_scene ''pCubeShape1'' True = Path ''|pCube1|pCubeShape1''"
  by (simp add: getDAGPath_def example_defs or_empty_def)

lemma addObj_cube:
  "addObj example_scene example_target ''pCube1'' NoPath True (1 / 2) ''Up'' =
     ((Some ''pCubeShape1'', PyTrue), example_target_cube)"
  by (simp add: addObj_def Let_def alreadyExists_iff keys_def store_entry_def getDAGPath_def
        or_empty_def example_defs)

text \<open>
  C5. When \<^verbatim>\<open>addObj\<close> accepts a candidate under the key \<open>k\<close>, \<^verbatim>\<open>delObj\<close> of \<open>k\<close> gives back
  the list as it was before: the same entries in the same order, the same index. Neither
  operation touches the index.
\<close>

theorem add_then_remove:
  assumes "addObj sc self ob dagPath activation proba align = ((Some k, c), self')"
  shows "delObj self' k = Inr self \<and> i self' = i self"
  using assms
  by (auto simp: addObj_def Let_def delObj_store_entry i_store_entry
           split: if_splits option.splits)

theorem add_then_remove_witness:
  "addObj example_scene example_target ''pCube1'' NoPath True (1 / 2) ''Up'' =
     ((Some ''pCubeShape1'', PyTrue), example_target_cube) \<and>
   delObj example_target_cube ''pCubeShape1'' = Inr example_target \<and>
   i example_target_cube = i example_target"
  using add_then_remove [OF addObj_cube] addObj_cube by simp

text \<open>
  C6. A candidate whose key is already in the list is rejected with the already-exists
  reason, and the list that comes back is the list that went in (entries and index). This
  holds when the candidate itself is a key, and when the candidate is a transform whose
  single child shape, of an authorized type, is a key. \<^verbatim>\<open>addObj\<close> returns a pair in every
  case; none of its own steps can raise.
\<close>

theorem addObj_rejects_existing:
  "(alreadyExists self ob \<longrightarrow>
      addObj sc self ob dagPath activation proba align = ((None, Reason msg_exists), self)) \<and>
   (objectType sc ob \<notin> set (auth self) \<and> objectType sc ob = ''transform'' \<and>
    childShapes sc ob = Some [c] \<and> nodeType sc c \<in> set (auth self) \<and> alreadyExists self c \<longrightarrow>
      addObj sc self ob dagPath activation proba align = ((None, Reason msg_exists), self))"
  by (simp add: addObj_def Let_def)

theorem addObj_rejects_existing_witness:
  "alreadyExists example_target_cube ''pCubeShape1'' \<and>
   addObj example_scene example_target_cube ''pCubeShape1'' NoPath True (1 / 2) ''Up'' =
     ((None, Reason msg_exists), example_target_cube) \<and>
   objectType example_scene ''pCube1'' = ''transform'' \<and>
   childShapes example_scene ''pCube1'' = Some [''pCubeShape1''] \<and>
   addObj example_scene example_target_cube ''pCube1'' NoPath True (1 / 2) ''Up'' =
     ((None, Reason msg_exists), example_target_cube)"
proof -
  have a: "alreadyExists example_target_cube ''pCubeShape1''"
    by (simp add: alreadyExists_iff keys_def example_defs)
  have b: "objectType example_scene ''pCube1'' \<notin> set (auth example_target_cube)"
    "objectType example_scene ''pCube1'' = ''transform''"
    "childShapes example_scene ''pCube1'' = Some [''pCubeShape1'']"
    "nodeType example_scene ''pCubeShape1'' \<in> set (auth example_target_cube)"
    by (simp_all add: example_defs)
  show ?thesis
    using a b
      addObj_rejects_existing [of example_target_cube "''pCubeShape1''" example_scene NoPath True "1 / 2" "''Up''"]
      addObj_rejects_existing [of example_target_cube "''pCube1''" example_scene NoPath True "1 / 2" "''Up''" "''pCubeShape1''"]
    by simp
qed

text \<open>
  C4, as the code has it. For a candidate of type \<open>transform\<close> that is not itself a key
  (and \<open>transform\<close> is in no list's authorized types): with more than one child shape of
  an authorized type, \<^verbatim>\<open>addObj\<close> rejects it with the hierarchy-too-complex reason and
  returns the list unchanged, picking none of the children; when its only child shape is
  of an authorized type and not yet a key, \<^verbatim>\<open>addObj\<close> accepts the candidate under the
  child's name and appends the child's entry. The statement says nothing of a transform
  with one authorized child beside children of other types.
\<close>

theorem addObj_transform:
  assumes "objectType sc ob = ''transform''" and "''transform'' \<notin> set (auth self)"
    and "\<not> alreadyExists self ob"
  shows "(childShapes sc ob = Some cs \<and>
          1 < length (filter (\<lambda>c. nodeType sc c \<in> set (auth self)) cs) \<longrightarrow>
            addObj sc self ob dagPath activation proba align = ((None, Reason msg_complex), self)) \<and>
         (childShapes sc ob = Some [c] \<and> nodeType sc c \<in> set (auth self) \<and> \<not> alreadyExists self c \<longrightarrow>
            addObj sc self ob dagPath activation proba align =
              ((Some c, PyTrue),
               self\<lparr>obj := obj self @ [(c, (getDAGPath sc c True, activation, proba, align))]\<rparr>))"
proof (intro conjI impI)
  assume a: "childShapes sc ob = Some cs \<and>
    1 < length (filter (\<lambda>c. nodeType sc c \<in> set (auth self)) cs)"
  have "length cs \<noteq> 1"
    using a length_filter_le [of "\<lambda>c. nodeType sc c \<in> set (auth self)" cs] by linarith
  with a assms show "addObj sc self ob dagPath activation proba align =
      ((None, Reason msg_complex), self)"
    by (simp add: addObj_def Let_def)
next
  assume "childShapes sc ob = Some [c] \<and> nodeType sc c \<in> set (auth self) \<and>
    \<not> alreadyExists self c"
  with assms show "addObj sc self ob dagPath activation proba align =
      ((Some c, PyTrue),
       self\<lparr>obj := obj self @ [(c, (getDAGPath sc c True, activation, proba, align))]\<rparr>)"
    by (simp add: addObj_def Let_def store_entry_new)
qed

theorem addObj_transform_witness:
  "objectType example_scene ''twin'' = ''transform'' \<and>
   childShapes example_scene ''twin'' = Some [''twinShape1'', ''twinShape2''] \<and>
   length (filter (\<lambda>c. nodeType example_scene c \<in> set (auth example_target))
             [''twinShape1'', ''twinShape2'']) = 2 \<and>
   addObj example_scene example_target ''twin'' NoPath True (1 / 2) ''Up'' =
     ((None, Reason msg_complex), example_target) \<and>
   childShapes example_scene ''pCube1'' = Some [''pCubeShape1''] \<and>
   addObj example_scene example_target ''pCube1'' NoPath True (1 / 2) ''Up'' =
     ((Some ''pCubeShape1'', PyTrue),
      example_target\<lparr>obj := obj example_target @
         [(''pCubeShape1'', (getDAGPath example_scene ''pCubeShape1'' True, True, 1 / 2, ''Up''))]\<rparr>)"
proof -
  have t: "objectType example_scene ''twin'' = ''transform''"
    "objectType example_scene ''pCube1'' = ''transform''"
    "''transform'' \<notin> set (auth example_target)"
    "\<not> alreadyExists example_target ''twin''"
    "\<not> alreadyExists example_target ''pCube1''"
    "\<not> alreadyExists example_target ''pCubeShape1''"
    by (simp_all add: alreadyExists_iff keys_def example_defs)
  have c: "childShapes example_scene ''twin'' = Some [''twinShape1'', ''twinShape2'']"
    "childShapes example_scene ''pCube1'' = Some [''pCubeShape1'']"
    "nodeType example_scene ''pCubeShape1'' \<in> set (auth example_target)"
    "length (filter (\<lambda>c. nodeType example_scene c \<in> set (auth example_target))
               [''twinShape1'', ''twinShape2'']) = 2"
    by (simp_all add: example_defs)
  show ?thesis
    using t c
      addObj_transform [of example_scene "''twin''" example_target "[''twinShape1'', ''twinShape2'']"
        NoPath True "1 / 2" "''Up''"]
      addObj_transform [of example_scene "''pCube1''" example_target _
        NoPath True "1 / 2" "''Up''" "''pCubeShape1''"]
    by simp
qed

text \<open>
  C4, as stated, fails where a key is in the list already, by the test \<^verbatim>\<open>addObj\<close> makes
  first. The transform \<open>pCube1\<close> has exactly one child, of an authorized type, and is not
  accepted: the child is a key, and the answer is the already-exists reason. The
  transform \<open>twin\<close> has two meshes and, in a list that holds its name, is rejected with
  the already-exists reason, not the too-complex one.
\<close>

theorem addObj_transform_counterexample:
  "objectType example_scene ''pCube1'' = ''transform'' \<and>
   childShapes example_scene ''pCube1'' = Some [''pCubeShape1''] \<and>
   nodeType example_scene ''pCubeShape1'' \<in> set (auth example_target_cube) \<and>
   addObj example_scene example_target_cube ''pCube1'' NoPath True (1 / 2) ''Up'' =
     ((None, Reason msg_exists), example_target_cube) \<and>
   objectType example_scene ''twin'' = ''transform'' \<and>
   childShapes example_scene ''twin'' = Some [''twinShape1'', ''twinShape2''] \<and>
   nodeType example_scene ''twinShape1'' \<in> set (auth example_target_stale) \<and>
   nodeType example_scene ''twinShape2'' \<in> set (auth example_target_stale) \<and>
   addObj example_scene example_target_stale ''twin'' NoPath True (1 / 2) ''Up'' =
     ((None, Reason msg_exists), example_target_stale) \<and>
   msg_exists \<noteq> msg_complex"
  by (simp add: addObj_def Let_def alreadyExists_iff keys_def example_defs
        msg_exists_def msg_complex_def)

text \<open>
  The same final branch of \<^verbatim>\<open>addObj\<close> takes the transform \<open>grp\<close>, which has one child of an
  authorized type (a mesh) beside a curve. The comments of \<^verbatim>\<open>addObj\<close> count a transform
  with a child of an authorized type as valid and leave this branch to be written.
\<close>

lemma addObj_mixed_children_example:
  "childShapes example_scene ''grp'' = Some [''grpShape'', ''curveShape1''] \<and>
   nodeType example_scene ''grpShape'' \<in> set (auth example_target) \<and>
   nodeType example_scene ''curveShape1'' \<notin> set (auth example_target) \<and>
   addObj example_scene example_target ''grp'' NoPath True (1 / 2) ''Up'' =
     ((None, Reason msg_complex), example_target)"
  by (simp add: addObj_def Let_def alreadyExists_iff keys_def example_defs)

lemma map_fst_insort_key: "map fst (insort_key fst x xs) = insort (fst x) (map fst xs)"
  by (induction xs) auto

lemma map_fst_sort_key: "map fst (sort_key fst xs) = sort (map fst xs)"
  by (induction xs) (auto simp: map_fst_insort_key)

lemma insort_key_map_same_key:
  assumes "\<And>x. fst (g x) = fst x"
  shows "insort_key fst (g x) (map g xs) = map g (insort_key fst x xs)"
  by (induction xs) (auto simp: assms)

lemma sort_key_map_same_key:
  assumes "\<And>x. fst (g x) = fst x"
  shows "sort_key fst (map g xs) = map g (sort_key fst xs)"
  by (induction xs) (auto simp: insort_key_map_same_key [OF assms])

lemma getNext_step:
  assumes d: "distinct (keys self)" and ne: "keys self \<noteq> []"
  shows "getNext self =
           Inr (fst (snd (sort_key fst (obj self) ! nat (i self mod int (length (keys self))))),
                self\<lparr>i := i self + 1\<rparr>)"
proof -
  let ?N = "length (keys self)"
  let ?srt = "sort_key fst (obj self)"
  let ?n = "nat (i self mod int ?N)"
  from ne have N: "0 < ?N" by simp
  have lo: "0 \<le> i self mod int ?N" and hi: "i self mod int ?N < int ?N"
    using N by simp_all
  then have n: "?n < ?N" by simp
  have ne': "sort (keys self) \<noteq> []"
    using N by (metis length_sort length_greater_0_conv)
  have idx: "py_index (sort (keys self)) (i self mod int ?N) = Inr (sort (keys self) ! ?n)"
    using lo hi by (simp add: py_index_def Let_def del: pos_mod_sign pos_mod_bound)
  have n': "?n < length ?srt" using n by (simp add: keys_def)
  have key: "sort (keys self) ! ?n = fst (?srt ! ?n)"
    unfolding keys_def map_fst_sort_key [symmetric] using n' by (simp add: keys_def)
  have "?srt ! ?n \<in> set (obj self)"
    using n' by (metis nth_mem set_sort)
  then have look: "map_of (obj self) (fst (?srt ! ?n)) = Some (snd (?srt ! ?n))"
    using d by (simp add: keys_def map_of_is_SomeI)
  show ?thesis
    by (simp add: getNext_def Let_def ne' idx key look)
qed

lemma getNext_n_general:
  assumes "distinct (keys self)" and "keys self \<noteq> []"
  shows "getNext_n n self =
           Inr (map (\<lambda>m. fst (snd (sort_key fst (obj self) !
                                     nat ((i self + int m) mod int (length (keys self))))))
                  [0..<n],
                self\<lparr>i := i self + int n\<rparr>)"
  using assms
proof (induction n arbitrary: self)
  case 0
  then show ?case by simp
next
  case (Suc n)
  let ?self' = "self\<lparr>i := i self + 1\<rparr>"
  have k: "distinct (keys ?self')" "keys ?self' \<noteq> []"
    using Suc.prems by (simp_all add: keys_def)
  have k': "keys ?self' = keys self" by (simp add: keys_def)
  have "getNext_n n ?self' =
          Inr (map (\<lambda>m. fst (snd (sort_key fst (obj self) !
                                     nat ((i self + 1 + int m) mod int (length (keys self))))))
                 [0..<n],
               self\<lparr>i := i self + 1 + int n\<rparr>)"
    using Suc.IH [OF k] by (simp add: k')
  then show ?case
    by (simp add: getNext_step [OF Suc.prems] map_upt_Suc add.assoc del: upt_Suc)
qed

lemma refs_in_key_order:
  "map (\<lambda>m. f (xs ! nat (int m mod int (length xs)))) [0..<length xs] = map f xs"
  by (rule nth_equalityI) simp_all

text \<open>
  C2. In a list with \<open>N \<ge> 1\<close> (distinct) keys and the index at \<open>0\<close>, \<open>N\<close> consecutive calls
  of \<^verbatim>\<open>getNext\<close> return the stored references of the entries in ascending order of their
  keys, every key once, and leave the index at \<open>N\<close>; the next call returns the reference of
  the smallest key again. Replacing the activation flags of the entries by any others
  changes nothing in what is returned.
\<close>

theorem getNext_round_robin:
  assumes "distinct (keys self)" and "keys self \<noteq> []" and "i self = 0"
  shows "getNext_n (length (keys self)) self =
           Inr (map (fst \<circ> snd) (sort_key fst (obj self)),
                self\<lparr>i := int (length (keys self))\<rparr>) \<and>
         map fst (sort_key fst (obj self)) = sort (keys self) \<and>
         sorted (sort (keys self)) \<and> distinct (sort (keys self)) \<and>
         set (sort (keys self)) = set (keys self) \<and>
         getNext (self\<lparr>i := int (length (keys self))\<rparr>) =
           Inr ((fst \<circ> snd) (sort_key fst (obj self) ! 0),
                self\<lparr>i := int (length (keys self)) + 1\<rparr>) \<and>
         getNext_n (length (keys self))
             (self\<lparr>obj := map (\<lambda>(k, d, a, rest). (k, d, flag k a, rest)) (obj self)\<rparr>) =
           Inr (map (fst \<circ> snd) (sort_key fst (obj self)),
                self\<lparr>obj := map (\<lambda>(k, d, a, rest). (k, d, flag k a, rest)) (obj self),
                     i := int (length (keys self))\<rparr>)"
proof -
  let ?g = "\<lambda>(k, d, a, rest). (k, d, flag k a, rest) :: string \<times> entry"
  let ?self2 = "self\<lparr>obj := map ?g (obj self)\<rparr>"
  have len: "length (keys self) = length (obj self)" by (simp add: keys_def)
  have one: "getNext_n (length (keys self)) self =
           Inr (map (fst \<circ> snd) (sort_key fst (obj self)),
                self\<lparr>i := int (length (keys self))\<rparr>)"
    using getNext_n_general [OF assms(1,2), of "length (keys self)"] assms(3)
      refs_in_key_order [of "fst \<circ> snd" "sort_key fst (obj self)"]
    by (simp add: len comp_def)
  have g: "\<And>x. fst (?g x) = fst x" by (simp add: split_beta)
  have g2: "\<And>x. fst (snd (?g x)) = fst (snd x)" by (simp add: split_beta)
  have keys2: "keys ?self2 = keys self"
    by (simp add: keys_def split_beta comp_def)
  have "getNext_n (length (keys ?self2)) ?self2 =
           Inr (map (\<lambda>m. fst (snd (sort_key fst (obj ?self2) !
                                     nat ((i ?self2 + int m) mod int (length (keys ?self2))))))
                  [0..<length (keys ?self2)],
                ?self2\<lparr>i := i ?self2 + int (length (keys ?self2))\<rparr>)"
    using assms(1,2) by (intro getNext_n_general) (simp_all add: keys2)
  then have two: "getNext_n (length (keys self)) ?self2 =
           Inr (map (fst \<circ> snd) (sort_key fst (obj self)),
                ?self2\<lparr>i := int (length (keys self))\<rparr>)"
    using assms(3) refs_in_key_order [of "fst \<circ> snd" "sort_key fst (map ?g (obj self))"]
    by (simp add: keys2 len sort_key_map_same_key [of ?g, OF g] g2 comp_def)
  have three: "getNext (self\<lparr>i := int (length (keys self))\<rparr>) =
           Inr ((fst \<circ> snd) (sort_key fst (obj self) ! 0),
                self\<lparr>i := int (length (keys self)) + 1\<rparr>)"
    using getNext_step [of "self\<lparr>i := int (length (keys self))\<rparr>"] assms(1,2)
    by (simp add: keys_def)
  show ?thesis
    using one two three assms(1)
    by (simp add: map_fst_sort_key keys_def)
qed

lemma validate_loop_result:
  assumes "errorHandle self = None" and "distinct (map fst (obj self))"
    and "set xs \<subseteq> set (obj self)"
  shows "validate_loop sc self (map fst xs) =
           Inr (\<forall>e \<in> set xs. objExists sc (fst (snd e)),
                takeWhile (objExists sc) (map (\<lambda>e. fst (snd e)) xs) @
                take 1 (dropWhile (objExists sc) (map (\<lambda>e. fst (snd e)) xs)))"
  using assms(3)
proof (induction xs)
  case Nil
  then show ?case by simp
next
  case (Cons x xs)
  then have "x \<in> set (obj self)" by simp
  then have look: "map_of (obj self) (fst x) = Some (snd x)"
    using assms(2) by (simp add: map_of_is_SomeI)
  from Cons have IH: "validate_loop sc self (map fst xs) =
           Inr (\<forall>e \<in> set xs. objExists sc (fst (snd e)),
                takeWhile (objExists sc) (map (\<lambda>e. fst (snd e)) xs) @
                take 1 (dropWhile (objExists sc) (map (\<lambda>e. fst (snd e)) xs)))"
    by simp
  show ?case
    by (simp add: look assms(1) IH)
qed

text \<open>
  Without an error handle (as in the two lists the tool creates), \<^verbatim>\<open>validateObjects\<close>
  answers \<^verbatim>\<open>False\<close> on the empty list; otherwise it answers \<^verbatim>\<open>True\<close> exactly when
  \<^verbatim>\<open>cmds.objExists\<close> holds of every stored reference. The references it hands to
  \<^verbatim>\<open>cmds.objExists\<close> are the live ones at the front of the list and the first one that is
  not live: no entry behind the first invalid one is examined.
\<close>

lemma validateObjects_result:
  assumes "errorHandle self = None" and "distinct (keys self)"
  shows "validateObjects sc self =
           Inr (keys self \<noteq> [] \<and> (\<forall>e \<in> set (obj self). objExists sc (fst (snd e))),
                takeWhile (objExists sc) (map (\<lambda>e. fst (snd e)) (obj self)) @
                take 1 (dropWhile (objExists sc) (map (\<lambda>e. fst (snd e)) (obj self))),
                None)"
proof (cases "obj self = []")
  case True
  then show ?thesis by (simp add: validateObjects_def keys_def assms(1))
next
  case False
  have "validate_loop sc self (keys self) =
           Inr (\<forall>e \<in> set (obj self). objExists sc (fst (snd e)),
                takeWhile (objExists sc) (map (\<lambda>e. fst (snd e)) (obj self)) @
                take 1 (dropWhile (objExists sc) (map (\<lambda>e. fst (snd e)) (obj self))))"
    unfolding keys_def
    using assms by (intro validate_loop_result) (simp_all add: keys_def)
  then show ?thesis
    using False by (simp add: validateObjects_def keys_def assms(1))
qed

text \<open>
  With an error handle, the first iteration of the loop raises: \<^verbatim>\<open>raiseError\<close> is called
  with a format string and an argument, and takes one.
\<close>

lemma validateObjects_with_handle:
  assumes "errorHandle self = Some h" and "distinct (keys self)" and "keys self \<noteq> []"
  shows "validateObjects sc self = Inl TypeError"
proof -
  obtain x xs where xs: "obj self = x # xs"
    using assms(3) by (cases "obj self") (simp_all add: keys_def)
  then have "map_of (obj self) (fst x) = Some (snd x)" by simp
  then show ?thesis
    using xs by (simp add: validateObjects_def keys_def assms(1))
qed

lemma validateObjects_result_examples:
  "errorHandle example_deleted = None \<and> distinct (keys example_deleted) \<and>
   validateObjects example_scene example_deleted =
     Inr (False, [Path ''|pCube1|pCubeShape1'', Path ''|gone|goneShape''], None) \<and>
   validateObjects example_scene example_target_cube =
     Inr (True, [Path ''|pCube1|pCubeShape1''], None) \<and>
   validateObjects example_scene example_target = Inr (False, [], None)"
proof -
  have a: "errorHandle example_deleted = None" "distinct (keys example_deleted)"
    "errorHandle example_target_cube = None" "distinct (keys example_target_cube)"
    "errorHandle example_target = None" "distinct (keys example_target)"
    by (simp_all add: keys_def example_defs example_deleted_def)
  show ?thesis
    using a validateObjects_result [of example_deleted example_scene]
      validateObjects_result [of example_target_cube example_scene]
      validateObjects_result [of example_target example_scene]
    by (simp add: keys_def example_defs example_deleted_def)
qed

text \<open>
  C8. On a list with an error handle \<^verbatim>\<open>validateObjects\<close> does not answer at all. The list
  \<open>example_cube_handled\<close> is not empty and its one reference is live, so the answer should
  be \<^verbatim>\<open>True\<close>; the list \<open>example_handled\<close> holds a reference that is not live, so the
  answer should be \<^verbatim>\<open>False\<close>. Both calls raise \<^verbatim>\<open>TypeError\<close> in the first iteration,
  before any reference is examined.
\<close>

theorem validateObjects_handle_raises:
  "keys example_cube_handled = [''pCubeShape1''] \<and>
   objExists example_scene (Path ''|pCube1|pCubeShape1'') \<and>
   validateObjects example_scene example_cube_handled = Inl TypeError \<and>
   validateObjects example_scene example_handled = Inl TypeError"
  by (simp add: validateObjects_def keys_def example_cube_handled_def example_handled_def
        example_deleted_def example_defs)

lemma getRandom_ignores_weighted: "getRandom self weighted r = getRandom self weighted' r"
  by (simp add: getRandom_def)

text \<open>
  C1. \<^verbatim>\<open>getRandom\<close> never reads its \<^verbatim>\<open>weighted\<close> argument, nor the activation flag or
  the probability of an entry: the drawn index alone picks the key. In the list with the
  weights \<open>0.1\<close> and \<open>0.9\<close> the two outcomes of \<^verbatim>\<open>randint(0, 1)\<close>, equally likely, select one
  entry each, weighted or not; and an entry that is switched off is selected all the same.
\<close>

theorem getRandom_unweighted:
  "getRandom example_weighted True 0 = Inr (Path ''|rock|rockShape'') \<and>
   getRandom example_weighted True 1 = Inr (Path ''|tree|treeShape'') \<and>
   getRandom example_weighted False 0 = Inr (Path ''|rock|rockShape'') \<and>
   getRandom example_weighted False 1 = Inr (Path ''|tree|treeShape'') \<and>
   getRandom example_disabled False 0 = Inr (Path ''|rock|rockShape'') \<and>
   getRandom example_disabled True 0 = Inr (Path ''|rock|rockShape'')"
  by (simp add: getRandom_def py_index_def keys_def example_weighted_def example_disabled_def)

theorem getNext_round_robin_witness:
  "distinct (keys example_source) \<and> keys example_source \<noteq> [] \<and> i example_source = 0 \<and>
   getNext_n 3 example_source =
     Inr ([Path ''|bush|bushShape'', Path ''|rock|rockShape'', Path ''|tree|treeShape''],
          example_source\<lparr>i := 3\<rparr>) \<and>
   sort (keys example_source) = [''bushShape'', ''rockShape'', ''treeShape''] \<and>
   getNext (example_source\<lparr>i := 3\<rparr>) =
     Inr (Path ''|bush|bushShape'', example_source\<lparr>i := 4\<rparr>)"
proof -
  have a: "distinct (keys example_source)" "keys example_source \<noteq> []" "i example_source = 0"
    by (simp_all add: keys_def example_source_def)
  have s: "sort_key fst (obj example_source) =
      [(''bushShape'', (Path ''|bush|bushShape'', False, 1 / 2, ''Up'')),
       (''rockShape'', (Path ''|rock|rockShape'', True, 1 / 2, ''Up'')),
       (''treeShape'', (Path ''|tree|treeShape'', True, 1 / 2, ''Up''))]"
    by (simp add: example_source_def)
  have l: "length (keys example_source) = 3" by (simp add: keys_def example_source_def)
  show ?thesis
    using a getNext_round_robin [OF a, where flag = "\<lambda>k a. a"] by (simp add: s l)
qed

section \<open>Properties of sp3dToolOption and sp3dTransform\<close>

lemma checkVars_loop_iff:
  "checkVars_loop st rows \<longleftrightarrow>
     (\<forall>(name, ty, val, var) \<in> set rows.
        optionVar_exists st name \<and>
        (name = ''sp3dVersion'' \<longrightarrow> opt_num (optionVar_q st name) = py_float val))"
  by (induction st rows rule: checkVars_loop.induct) auto

lemma resetVars_loop_other:
  "name \<notin> fst ` set rows \<Longrightarrow> resetVars_loop rows st name = st name"
  by (induction rows st rule: resetVars_loop.induct)
     (auto simp: optionVar_iv_def optionVar_fv_def)

lemma resetVars_loop_row:
  assumes "distinct (map fst rows)" and "(name, ty, val, var) \<in> set rows"
    and "ty = ''iv'' \<or> ty = ''fv''"
  shows "resetVars_loop rows st name =
           Some (if ty = ''iv'' then IntVar (py_int val) else FloatVar (py_float val))"
  using assms
  by (induction rows st rule: resetVars_loop.induct)
     (auto simp: resetVars_loop_other optionVar_iv_def optionVar_fv_def image_iff)

lemma loadVars_loop_other:
  "a \<notin> (\<lambda>(name, ty, val, var). var) ` set rows \<Longrightarrow> loadVars_loop st rows d a = d a"
  by (induction st rows d rule: loadVars_loop.induct) auto

lemma loadVars_loop_row:
  assumes "distinct (map (\<lambda>(name, ty, val, var). var) rows)" and "(name, ty, val, var) \<in> set rows"
    and "ty = ''iv'' \<or> ty = ''fv''"
  shows "loadVars_loop st rows d var =
           Some (if ty = ''iv'' then PyBool (opt_bool (optionVar_q st name))
                 else opt_round2 (optionVar_q st name))"
  using assms
  by (induction st rows d rule: loadVars_loop.induct)
     (auto simp: loadVars_loop_other image_iff)

lemma commitVars_loop_ok:
  "\<forall>(name, ty, val, var) \<in> set rows. d var \<noteq> None \<Longrightarrow> \<exists>st'. commitVars_loop d rows st = Inr st'"
  by (induction d rows st rule: commitVars_loop.induct) auto

lemma commitVars_loop_other:
  "commitVars_loop d rows st = Inr st' \<Longrightarrow> name \<notin> fst ` set rows \<Longrightarrow> st' name = st name"
  by (induction d rows st rule: commitVars_loop.induct)
     (auto simp: optionVar_iv_def optionVar_fv_def split: if_splits option.splits)

lemma commitVars_loop_row:
  assumes "commitVars_loop d rows st = Inr st'" and "distinct (map fst rows)"
    and "(name, ty, val, var) \<in> set rows" and "ty = ''iv'' \<or> ty = ''fv''" and "d var = Some v"
  shows "st' name = Some (if ty = ''iv'' then IntVar (py_int v) else FloatVar (py_float v))"
  using assms
  by (induction d rows st rule: commitVars_loop.induct)
     (auto simp: optionVar_iv_def optionVar_fv_def image_iff
           dest: commitVars_loop_other split: if_splits option.splits)

lemma table_names_distinct: "distinct (map fst sp3dOptionVars)"
  by (simp add: sp3dOptionVars_def)

lemma table_attrs_distinct: "distinct (map (\<lambda>(name, ty, val, var). var) sp3dOptionVars)"
  by (simp add: sp3dOptionVars_def)

lemma table_types: "\<forall>(name, ty, val, var) \<in> set sp3dOptionVars. ty = ''iv'' \<or> ty = ''fv''"
  by (simp add: sp3dOptionVars_def)

lemma table_version_row:
  "(''sp3dVersion'', ''fv'', PyFloat spPaint3dVersion, ''version'') \<in> set sp3dOptionVars"
  by (simp add: sp3dOptionVars_def)

lemma table_version_val:
  "(''sp3dVersion'', ty, val, var) \<in> set sp3dOptionVars \<Longrightarrow> val = PyFloat spPaint3dVersion"
  using table_names_distinct table_version_row
  by (metis eq_key_imp_eq_value prod.inject)

lemma round_half_even_of_int: "round_half_even (of_int n) = n"
  by (simp add: round_half_even_def)

lemma py_round_of_int: "py_round (of_int n) k = of_int n"
proof -
  have "of_int n * 10 ^ k = (of_int (n * 10 ^ k) :: real)" by simp
  then have "round_half_even (of_int n * 10 ^ k) = n * 10 ^ k"
    by (simp only: round_half_even_of_int)
  then show ?thesis by (simp add: py_round_def)
qed

lemma py_round_idem: "py_round (py_round x k) k = py_round x k"
  by (simp add: py_round_def round_half_even_of_int)

lemma py_round_default_timer: "py_round (5 / 100) 2 = 5 / 100"
  by (simp add: py_round_def round_half_even_def)

lemma table_defaults:
  "\<forall>(name, ty, val, var) \<in> set sp3dOptionVars.
     py_float (if ty = ''iv'' then PyBool (opt_bool (IntVar (py_int val)))
               else opt_round2 (FloatVar (py_float val))) = py_float val"
  using py_round_of_int [of 0 2] py_round_of_int [of 10 2] py_round_of_int [of 45 2]
    py_round_of_int [of 2022 2] py_round_default_timer
  by (simp add: sp3dOptionVars_def spPaint3dVersion_def)

lemma init_attributes_present:
  "\<forall>(name, ty, val, var) \<in> set sp3dOptionVars. vars init_attributes var \<noteq> None"
  by (simp add: sp3dOptionVars_def init_attributes_def)

lemma optionVar_q_Some: "st name = Some v \<Longrightarrow> optionVar_q st name = v"
  by (simp add: optionVar_q_def)

lemma checkVars_iff:
  "checkVars st \<longleftrightarrow>
     (\<forall>name \<in> fst ` set sp3dOptionVars. st name \<noteq> None) \<and>
     (\<forall>v. st ''sp3dVersion'' = Some v \<longrightarrow> opt_num v = spPaint3dVersion)"
proof
  assume "checkVars st"
  then have c: "\<forall>(name, ty, val, var) \<in> set sp3dOptionVars.
        optionVar_exists st name \<and>
        (name = ''sp3dVersion'' \<longrightarrow> opt_num (optionVar_q st name) = py_float val)"
    by (simp add: checkVars_def checkVars_loop_iff)
  have "\<forall>name \<in> fst ` set sp3dOptionVars. st name \<noteq> None"
    using c by (auto simp: optionVar_exists_def)
  moreover have "\<forall>v. st ''sp3dVersion'' = Some v \<longrightarrow> opt_num v = spPaint3dVersion"
    using c table_version_row by (auto simp: optionVar_q_Some)
  ultimately show "(\<forall>name \<in> fst ` set sp3dOptionVars. st name \<noteq> None) \<and>
     (\<forall>v. st ''sp3dVersion'' = Some v \<longrightarrow> opt_num v = spPaint3dVersion)"
    by simp
next
  assume a: "(\<forall>name \<in> fst ` set sp3dOptionVars. st name \<noteq> None) \<and>
     (\<forall>v. st ''sp3dVersion'' = Some v \<longrightarrow> opt_num v = spPaint3dVersion)"
  have "\<forall>(name, ty, val, var) \<in> set sp3dOptionVars.
        optionVar_exists st name \<and>
        (name = ''sp3dVersion'' \<longrightarrow> opt_num (optionVar_q st name) = py_float val)"
  proof (clarify, intro conjI impI)
    fix name ty val var
    assume r: "(name, ty, val, var) \<in> set sp3dOptionVars"
    then have "name \<in> fst ` set sp3dOptionVars" by force
    then show e: "optionVar_exists st name"
      using a by (auto simp: optionVar_exists_def)
    assume n: "name = ''sp3dVersion''"
    then have v: "val = PyFloat spPaint3dVersion"
      using r table_version_val by simp
    from e obtain w where w: "st name = Some w"
      by (auto simp: optionVar_exists_def)
    then show "opt_num (optionVar_q st name) = py_float val"
      using a n v by (simp add: optionVar_q_Some)
  qed
  then show "checkVars st"
    by (simp add: checkVars_def checkVars_loop_iff)
qed

lemma reset_store_row:
  assumes "(name, ty, val, var) \<in> set sp3dOptionVars"
  shows "resetVars_loop sp3dOptionVars st name =
           Some (if ty = ''iv'' then IntVar (py_int val) else FloatVar (py_float val))"
  using assms table_types by (intro resetVars_loop_row [OF table_names_distinct]) auto

lemma checkVars_reset: "checkVars (resetVars_loop sp3dOptionVars st)"
proof -
  have "\<forall>name \<in> fst ` set sp3dOptionVars. resetVars_loop sp3dOptionVars st name \<noteq> None"
    using reset_store_row by force
  moreover have "\<forall>v. resetVars_loop sp3dOptionVars st ''sp3dVersion'' = Some v \<longrightarrow>
      opt_num v = spPaint3dVersion"
    using reset_store_row [OF table_version_row, of st] by simp
  ultimately show ?thesis by (simp add: checkVars_iff)
qed

lemma load_after_reset:
  assumes "(name, ty, val, var) \<in> set sp3dOptionVars"
  shows "\<exists>v. vars (loadVars (resetVars_loop sp3dOptionVars st) self2) var = Some v \<and>
             py_float v = py_float val"
proof -
  let ?st = "resetVars_loop sp3dOptionVars st"
  have ty: "ty = ''iv'' \<or> ty = ''fv''" using assms table_types by auto
  have q: "optionVar_q ?st name =
      (if ty = ''iv'' then IntVar (py_int val) else FloatVar (py_float val))"
    using reset_store_row [OF assms, of st] by (simp add: optionVar_q_Some)
  have "vars (loadVars ?st self2) var =
      Some (if ty = ''iv'' then PyBool (opt_bool (optionVar_q ?st name))
            else opt_round2 (optionVar_q ?st name))"
    using loadVars_loop_row [OF table_attrs_distinct assms ty] by (simp add: loadVars_def)
  moreover have "py_float (if ty = ''iv'' then PyBool (opt_bool (optionVar_q ?st name))
            else opt_round2 (optionVar_q ?st name)) = py_float val"
    using table_defaults assms ty by (auto simp: q)
  ultimately show ?thesis by simp
qed

text \<open>
  C3. \<^verbatim>\<open>checkVars\<close> answers \<^verbatim>\<open>False\<close> exactly when a name of the table is missing from the
  store or the stored version is not the running version. \<^verbatim>\<open>__init__\<close> then loads
  everything or nothing: on a valid store every attribute is loaded, on an invalid one the
  object keeps the attributes it was built with. After \<^verbatim>\<open>resetVars\<close> the store is valid,
  and a load from it (the one \<^verbatim>\<open>resetVars\<close> does itself, or any later one) gives every
  attribute of the table the number that is its default.
\<close>

theorem checkVars_resetVars:
  "(\<not> checkVars st \<longleftrightarrow>
      (\<exists>name \<in> fst ` set sp3dOptionVars. st name = None) \<or>
      (\<exists>v. st ''sp3dVersion'' = Some v \<and> opt_num v \<noteq> spPaint3dVersion)) \<and>
   (checkVars st \<longrightarrow> sp3dToolOption_init st = Inr (loadVars st init_attributes, st)) \<and>
   (\<not> checkVars st \<longrightarrow> (\<exists>st'. sp3dToolOption_init st = Inr (init_attributes, st'))) \<and>
   checkVars (snd (resetVars self st)) \<and>
   fst (resetVars self st) = loadVars (snd (resetVars self st)) self \<and>
   (\<forall>(name, ty, val, var) \<in> set sp3dOptionVars.
      \<exists>v. vars (loadVars (snd (resetVars self st)) self2) var = Some v \<and>
          py_float v = py_float val)"
proof -
  have one: "\<not> checkVars st \<longleftrightarrow>
      (\<exists>name \<in> fst ` set sp3dOptionVars. st name = None) \<or>
      (\<exists>v. st ''sp3dVersion'' = Some v \<and> opt_num v \<noteq> spPaint3dVersion)"
    unfolding checkVars_iff by auto
  have two: "checkVars st \<longrightarrow> sp3dToolOption_init st = Inr (loadVars st init_attributes, st)"
    by (simp add: sp3dToolOption_init_def)
  obtain st' where "commitVars_loop (vars init_attributes) sp3dOptionVars st = Inr st'"
    using commitVars_loop_ok [OF init_attributes_present] by blast
  then have three: "\<not> checkVars st \<longrightarrow> (\<exists>st'. sp3dToolOption_init st = Inr (init_attributes, st'))"
    by (simp add: sp3dToolOption_init_def commitVars_def)
  have r: "snd (resetVars self st) = resetVars_loop sp3dOptionVars st"
    "fst (resetVars self st) = loadVars (resetVars_loop sp3dOptionVars st) self"
    by (simp_all add: resetVars_def Let_def)
  have six: "\<forall>(name, ty, val, var) \<in> set sp3dOptionVars.
      \<exists>v. vars (loadVars (snd (resetVars self st)) self2) var = Some v \<and>
          py_float v = py_float val"
    unfolding r using load_after_reset by blast
  show ?thesis
    using one two three six by (simp add: r checkVars_reset)
qed

lemma stale_version: "stale_store ''sp3dVersion'' = Some (FloatVar 2021)"
  by (simp add: stale_store_def)

theorem checkVars_resetVars_witness:
  "stale_store ''sp3dVersion'' = Some (FloatVar 2021) \<and> \<not> checkVars stale_store \<and>
   (\<exists>st'. sp3dToolOption_init stale_store = Inr (init_attributes, st')) \<and>
   checkVars (snd (resetVars init_attributes stale_store)) \<and>
   (\<exists>v. vars (loadVars (snd (resetVars init_attributes stale_store)) init_attributes)
           ''paintTimer'' = Some v \<and> py_float v = 5 / 100) \<and>
   (\<exists>v. vars (loadVars (snd (resetVars init_attributes stale_store)) init_attributes)
           ''smoothNormal'' = Some v \<and> py_float v = 1)"
proof -
  have n: "opt_num (FloatVar 2021) \<noteq> spPaint3dVersion"
    by (simp add: spPaint3dVersion_def)
  have r: "(''sp3dPaintTimer'', ''fv'', PyFloat (5 / 100), ''paintTimer'') \<in> set sp3dOptionVars"
    "(''sp3dSmoothNormal'', ''iv'', PyInt 1, ''smoothNormal'') \<in> set sp3dOptionVars"
    by (simp_all add: sp3dOptionVars_def)
  show ?thesis
    using stale_version n r
      checkVars_resetVars [of stale_store init_attributes init_attributes]
    by fastforce
qed

lemma commit_load_result:
  assumes p: "\<forall>(name, ty, val, var) \<in> set sp3dOptionVars. vars self var \<noteq> None"
  shows "\<exists>st'. commit_load self st = Inr (loadVars st' self, st') \<and>
           (\<forall>(name, ty, val, var) \<in> set sp3dOptionVars. \<forall>v. vars self var = Some v \<longrightarrow>
              vars (loadVars st' self) var =
                Some (if ty = ''iv'' then PyBool (py_int v \<noteq> 0)
                      else PyFloat (py_round (py_float v) 2)))"
proof -
  obtain st' where c: "commitVars_loop (vars self) sp3dOptionVars st = Inr st'"
    using commitVars_loop_ok [OF p] by blast
  have "vars (loadVars st' self) var =
          Some (if ty = ''iv'' then PyBool (py_int v \<noteq> 0) else PyFloat (py_round (py_float v) 2))"
    if r: "(name, ty, val, var) \<in> set sp3dOptionVars" and v: "vars self var = Some v"
    for name ty val var v
  proof -
    have ty: "ty = ''iv'' \<or> ty = ''fv''" using r table_types by auto
    have "st' name = Some (if ty = ''iv'' then IntVar (py_int v) else FloatVar (py_float v))"
      by (rule commitVars_loop_row [OF c table_names_distinct r ty v])
    then have q: "optionVar_q st' name =
        (if ty = ''iv'' then IntVar (py_int v) else FloatVar (py_float v))"
      by (simp add: optionVar_q_Some)
    show ?thesis
      using loadVars_loop_row [OF table_attrs_distinct r ty, of st' "vars self"] ty
      by (auto simp: loadVars_def q)
  qed
  then show ?thesis
    using c by (auto simp: commit_load_def commitVars_def)
qed

text \<open>
  C10. For an object that has the attributes of the table, \<^verbatim>\<open>commitVars\<close> followed by
  \<^verbatim>\<open>loadVars\<close> succeeds and maps every attribute tagged \<open>iv\<close> with value \<open>v\<close> to
  \<^verbatim>\<open>bool(int(v))\<close> and every attribute tagged \<open>fv\<close> to \<^verbatim>\<open>round(float(v), 2)\<close> (the number
  \<^verbatim>\<open>round(v, 2)\<close>, as a float); attributes that the table does not name, and \<open>groupID\<close>,
  stay as they are. Doing the round trip again, from any store, gives the same object.
\<close>

theorem commit_load_projection:
  assumes "\<forall>(name, ty, val, var) \<in> set sp3dOptionVars. vars self var \<noteq> None"
  shows "\<exists>self' st'. commit_load self st = Inr (self', st') \<and>
     (\<forall>(name, ty, val, var) \<in> set sp3dOptionVars. \<forall>v. vars self var = Some v \<longrightarrow>
        (ty = ''iv'' \<longrightarrow> vars self' var = Some (PyBool (py_int v \<noteq> 0))) \<and>
        (ty = ''fv'' \<longrightarrow> vars self' var = Some (PyFloat (py_round (py_float v) 2)))) \<and>
     (\<forall>a. a \<notin> (\<lambda>(name, ty, val, var). var) ` set sp3dOptionVars \<longrightarrow> vars self' a = vars self a) \<and>
     groupID self' = groupID self \<and>
     (\<forall>st2. \<exists>st3. commit_load self' st2 = Inr (self', st3))"
proof -
  obtain st' where c: "commit_load self st = Inr (loadVars st' self, st')"
    and rows: "\<forall>(name, ty, val, var) \<in> set sp3dOptionVars. \<forall>v. vars self var = Some v \<longrightarrow>
              vars (loadVars st' self) var =
                Some (if ty = ''iv'' then PyBool (py_int v \<noteq> 0)
                      else PyFloat (py_round (py_float v) 2))"
    using commit_load_result [OF assms, of st] by blast
  let ?self' = "loadVars st' self"
  have other: "\<forall>a. a \<notin> (\<lambda>(name, ty, val, var). var) ` set sp3dOptionVars \<longrightarrow>
      vars ?self' a = vars self a"
    by (simp add: loadVars_def loadVars_loop_other)
  have grp: "groupID ?self' = groupID self" by (simp add: loadVars_def)
  have p': "\<forall>(name, ty, val, var) \<in> set sp3dOptionVars. vars ?self' var \<noteq> None"
    using rows assms by fastforce
  have idem: "\<exists>st3. commit_load ?self' st2 = Inr (?self', st3)" for st2
  proof -
    obtain st3 where c3: "commit_load ?self' st2 = Inr (loadVars st3 ?self', st3)"
      and rows3: "\<forall>(name, ty, val, var) \<in> set sp3dOptionVars. \<forall>v. vars ?self' var = Some v \<longrightarrow>
              vars (loadVars st3 ?self') var =
                Some (if ty = ''iv'' then PyBool (py_int v \<noteq> 0)
                      else PyFloat (py_round (py_float v) 2))"
      using commit_load_result [OF p', of st2] by blast
    have "vars (loadVars st3 ?self') a = vars ?self' a" for a
    proof (cases "a \<in> (\<lambda>(name, ty, val, var). var) ` set sp3dOptionVars")
      case False
      then show ?thesis by (simp add: loadVars_def loadVars_loop_other)
    next
      case True
      then obtain name ty val where r: "(name, ty, val, a) \<in> set sp3dOptionVars" by auto
      then obtain v where v: "vars self a = Some v" using assms by fastforce
      let ?w = "if ty = ''iv'' then PyBool (py_int v \<noteq> 0) else PyFloat (py_round (py_float v) 2)"
      have w: "vars ?self' a = Some ?w" using rows r v by fastforce
      then have "vars (loadVars st3 ?self') a =
          Some (if ty = ''iv'' then PyBool (py_int ?w \<noteq> 0)
                else PyFloat (py_round (py_float ?w) 2))"
        using rows3 r by fastforce
      then show ?thesis
        by (simp add: w py_round_idem)
    qed
    then have "vars (loadVars st3 ?self') = vars ?self'" by (rule ext)
    then have "loadVars st3 ?self' = ?self'"
      by (simp add: loadVars_def)
    then show ?thesis using c3 by simp
  qed
  have rows': "\<forall>(name, ty, val, var) \<in> set sp3dOptionVars. \<forall>v. vars self var = Some v \<longrightarrow>
        (ty = ''iv'' \<longrightarrow> vars ?self' var = Some (PyBool (py_int v \<noteq> 0))) \<and>
        (ty = ''fv'' \<longrightarrow> vars ?self' var = Some (PyFloat (py_round (py_float v) 2)))"
    using rows by fastforce
  show ?thesis
    using c rows' other grp idem by blast
qed

text \<open>
  C9. With \<^verbatim>\<open>uniform\<close> set, \<^verbatim>\<open>getRandomScale\<close> returns one rounded draw three times
  (and consumes one draw). Without it, when the three ranges are the same interval
  \<open>[a, a]\<close>, the three draws (three are consumed) all give \<open>a\<close>, rounded, so the three
  components are equal again.
\<close>

theorem getRandomScale_equal_components:
  "(\<exists>v. fst (getRandomScale self True g) = (v, v, v)) \<and>
   pos (snd (getRandomScale self True g)) = pos g + 1 \<and>
   (scale self = ((a, a), (a, a), (a, a)) \<longrightarrow>
      getRandomScale self False g =
        ((py_round a 3, py_round a 3, py_round a 3), g\<lparr>pos := pos g + 3\<rparr>))"
  by (simp add: getRandomScale_def uniform_def random_def Let_def split_beta)

lemma example_options_present:
  "\<forall>(name, ty, val, var) \<in> set sp3dOptionVars. vars example_options var \<noteq> None"
  by (simp add: sp3dOptionVars_def example_options_def init_attributes_def)

lemma py_round_example: "py_round (1234 / 100000) 2 = 1 / 100"
  by (simp add: py_round_def round_half_even_def)

theorem commit_load_projection_witness:
  "vars example_options ''align'' = Some (PyInt 5) \<and>
   vars example_options ''paintTimer'' = Some (PyFloat (1234 / 100000)) \<and>
   (\<exists>self' st'. commit_load example_options Map.empty = Inr (self', st') \<and>
      vars self' ''align'' = Some (PyBool True) \<and>
      vars self' ''paintTimer'' = Some (PyFloat (1 / 100)) \<and>
      groupID self' = groupID example_options \<and>
      (\<exists>st3. commit_load self' Map.empty = Inr (self', st3)))"
proof -
  have v: "vars example_options ''align'' = Some (PyInt 5)"
    "vars example_options ''paintTimer'' = Some (PyFloat (1234 / 100000))"
    by (simp_all add: example_options_def)
  have r: "(''sp3dAlign'', ''iv'', PyInt 1, ''align'') \<in> set sp3dOptionVars"
    "(''sp3dPaintTimer'', ''fv'', PyFloat (5 / 100), ''paintTimer'') \<in> set sp3dOptionVars"
    by (simp_all add: sp3dOptionVars_def)
  obtain self' st' where c: "commit_load example_options Map.empty = Inr (self', st')"
    and rows: "\<forall>(name, ty, val, var) \<in> set sp3dOptionVars. \<forall>v. vars example_options var = Some v \<longrightarrow>
        (ty = ''iv'' \<longrightarrow> vars self' var = Some (PyBool (py_int v \<noteq> 0))) \<and>
        (ty = ''fv'' \<longrightarrow> vars self' var = Some (PyFloat (py_round (py_float v) 2)))"
    and g: "groupID self' = groupID example_options"
    and idem: "\<forall>st2. \<exists>st3. commit_load self' st2 = Inr (self', st3)"
    using commit_load_projection [OF example_options_present, of Map.empty] by blast
  have "vars self' ''align'' = Some (PyBool True)"
    using rows r(1) v(1) by fastforce
  moreover have "vars self' ''paintTimer'' = Some (PyFloat (1 / 100))"
    using rows r(2) v(2) py_round_example by fastforce
  ultimately show ?thesis
    using v c g idem by blast
qed

theorem getRandomScale_equal_components_witness:
  "scale sp3dTransform_init = ((1, 1), (1, 1), (1, 1)) \<and>
   getRandomScale sp3dTransform_init False example_rand = ((1, 1, 1), example_rand\<lparr>pos := 3\<rparr>) \<and>
   fst (getRandomScale example_transform True example_rand) = (3 / 2, 3 / 2, 3 / 2) \<and>
   pos (snd (getRandomScale example_transform True example_rand)) = 1"
proof -
  have s: "scale sp3dTransform_init = ((1, 1), (1, 1), (1, 1))"
    by (simp add: sp3dTransform_init_def)
  have u: "fst (getRandomScale example_transform True example_rand) = (3 / 2, 3 / 2, 3 / 2)"
    by (simp add: getRandomScale_def uniform_def random_def example_transform_def Let_def
          example_rand_def sp3dTransform_init_def py_round_def round_half_even_def)
  show ?thesis
    using s u py_round_of_int [of 1 3]
      getRandomScale_equal_components [of sp3dTransform_init example_rand 1]
      getRandomScale_equal_components [of example_transform example_rand 1]
    by (simp add: example_rand_def)
qed

theorem hasDuplicate_symmetric_witness:
  "hasDuplicate example_deleted example_target_cube \<and>
   hasDuplicate example_target_cube example_deleted \<and>
   set (keys example_deleted) \<inter> set (keys example_target_cube) \<noteq> {} \<and>
   \<not> hasDuplicate example_weighted example_target_cube \<and>
   \<not> hasDuplicate example_target_cube example_weighted"
proof -
  have "set (keys example_deleted) \<inter> set (keys example_target_cube) \<noteq> {}"
    "set (keys example_weighted) \<inter> set (keys example_target_cube) = {}"
    by (simp_all add: keys_def example_deleted_def example_target_cube_def example_weighted_def)
  then show ?thesis
    using hasDuplicate_symmetric [of example_deleted example_target_cube]
      hasDuplicate_symmetric [of example_weighted example_target_cube]
    by auto
qed

end
